theory Spec2Isabelle
  imports Complex_Main
begin

section \<open>The sample buffer of \<open>fetch_data_ws\<close>\<close>

text \<open>
  \<^verbatim>\<open>
  real_time_data_stream = []
  while True:
      result = ws.recv()
      data = json.loads(result)
      real_time_data_stream.append(data)
      if len(real_time_data_stream) >= 100:  # Limit the buffer to 100 samples
          real_time_data_stream.pop(0)
      yield real_time_data_stream
  \<close>
  One iteration appends the decoded message and then removes the first entry when the
  length has reached the limit. The limit is the literal 100 in the source; the step
  takes it as an argument so that the same rule can be run with a small limit.
  After the append the list is never empty, so \<open>pop(0)\<close> cannot raise.
\<close>

definition buffer_limit :: nat where
  "buffer_limit = 100"

definition buffer_step :: "nat \<Rightarrow> 'a list \<Rightarrow> 'a \<Rightarrow> 'a list" where
  "buffer_step bound buf d =
     (let appended = buf @ [d]
      in if length appended \<ge> bound then tl appended else appended)"

definition push :: "'a list \<Rightarrow> 'a \<Rightarrow> 'a list" where
  "push buf d = buffer_step buffer_limit buf d"

subsection \<open>The generator over a store of list objects\<close>

text \<open>
  The generator yields the list object itself. To see what a consumer holding a yielded
  value observes, list objects live in a store and the generator's local variable
  \<open>real_time_data_stream\<close> holds an address. \<open>append\<close> and \<open>pop(0)\<close> update the object
  in place; \<open>yield\<close> hands out the address.
\<close>

type_synonym addr = nat

record 'a store =
  cells :: "addr \<Rightarrow> 'a list"
  next_free :: addr

definition empty_store :: "'a store" where
  "empty_store = \<lparr>cells = (\<lambda>_. []), next_free = 0\<rparr>"

definition alloc_list :: "'a store \<Rightarrow> addr \<times> 'a store" where
  "alloc_list s =
     (next_free s, s\<lparr>cells := (cells s)(next_free s := []), next_free := Suc (next_free s)\<rparr>)"

definition deref :: "'a store \<Rightarrow> addr \<Rightarrow> 'a list" where
  "deref s r = cells s r"

text \<open>One pass through the loop body for a decoded message: the yielded value is the
  address held in the local variable.\<close>

definition gen_next :: "addr \<Rightarrow> 'a store \<Rightarrow> 'a \<Rightarrow> addr \<times> 'a store" where
  "gen_next a s d = (a, s\<lparr>cells := (cells s)(a := push (cells s a) d)\<rparr>)"

text \<open>Running the generator over a sequence of messages: the yielded addresses in order,
  and the store after the last one.\<close>

fun gen_run :: "addr \<Rightarrow> 'a store \<Rightarrow> 'a list \<Rightarrow> addr list \<times> 'a store" where
  "gen_run a s [] = ([], s)"
| "gen_run a s (d # ds) =
     (case gen_next a s d of (r, s') \<Rightarrow>
        (case gen_run a s' ds of (rs, s'') \<Rightarrow> (r # rs, s'')))"

section \<open>Exceptions, observable events and computations\<close>

text \<open>
  The numerical work is done by library routines (pandas, scipy, pywt) whose code is not
  part of the program. They are parameters of the model, each returning either an
  exception or a value. A number is a real, standing for a finite float; a sample of a
  signal may also be NaN (a field that pandas fills in for a message without it, a NaN in
  the JSON text), and NaN goes through numpy's arithmetic as it does there. Rounding,
  overflow and infinite samples are not modelled.

  Every function of the program is a computation that returns, besides its outcome, the
  ordered log of what it did that can be observed from outside: the library calls it made,
  with their arguments, and the Streamlit output it produced.
\<close>

datatype exn =
    WebSocketException string
  | ValueError string
  | ZeroDivisionError
  | KeyError string
  | OtherException string

datatype btype = Low | High

datatype npval = Val real | NaN

type_synonym signal = "npval list"

record axis_stats =
  RMS :: npval
  Kurtosis :: npval

datatype trace =
    Scatter3d nat "real list" "nat list" signal
  | Scatter nat "real list" signal

record figure =
  fig_title :: string
  fig_traces :: "trace list"

datatype message = Text string | TextExn string exn

datatype 'j event =
    CallDataFrame "'j list"
  | CallButter nat real btype
  | CallFiltfilt "real list" "real list" signal
  | CallKurtosis signal
  | CallWavedec signal string nat
  | StInfo string
  | StSuccess string
  | StWarning string
  | StError message
  | StWrite string
  | StJson "(string \<times> axis_stats) list"
  | StPlotlyChart figure
  | Sleep

record 'j lib =
  DataFrame :: "'j list \<Rightarrow> exn + (string \<times> signal) list"
  butter :: "nat \<Rightarrow> real \<Rightarrow> btype \<Rightarrow> exn + (real list \<times> real list)"
  filtfilt :: "real list \<Rightarrow> real list \<Rightarrow> signal \<Rightarrow> exn + signal"
  kurtosis :: "signal \<Rightarrow> exn + npval"
  wavedec :: "signal \<Rightarrow> string \<Rightarrow> nat \<Rightarrow> exn + signal list"

type_synonym ('j, 'a) comp = "'j event list \<times> (exn + 'a)"

definition ret :: "'a \<Rightarrow> ('j, 'a) comp" where
  "ret x = ([], Inr x)"

definition raise :: "exn \<Rightarrow> ('j, 'a) comp" where
  "raise e = ([], Inl e)"

definition emit :: "'j event \<Rightarrow> ('j, unit) comp" where
  "emit ev = ([ev], Inr ())"

definition libcall :: "'j event \<Rightarrow> exn + 'a \<Rightarrow> ('j, 'a) comp" where
  "libcall ev r = ([ev], r)"

text \<open>Sequencing: an exception of the first computation ends the whole computation, as
  an uncaught Python exception does; the logs are concatenated.\<close>

definition and_then :: "('j, 'a) comp \<Rightarrow> ('a \<Rightarrow> ('j, 'b) comp) \<Rightarrow> ('j, 'b) comp" where
  "and_then m f =
     (case m of
        (evs, Inl e) \<Rightarrow> (evs, Inl e)
      | (evs, Inr x) \<Rightarrow> (case f x of (evs', r) \<Rightarrow> (evs @ evs', r)))"

text \<open>Python's \<open>/\<close> on floats raises on a zero divisor.\<close>

definition pydiv :: "real \<Rightarrow> real \<Rightarrow> ('j, real) comp" where
  "pydiv x y = (if y = 0 then raise ZeroDivisionError else ret (x / y))"

section \<open>\<open>combined_filter\<close>\<close>

text \<open>
  \<^verbatim>\<open>
  def combined_filter(data, lowcut, highcut, fs, order=5):
      b_low, a_low = butter(order, lowcut / (0.5 * fs), btype='low')
      low_passed = filtfilt(b_low, a_low, data)
      b_high, a_high = butter(order, highcut / (0.5 * fs), btype='high')
      return filtfilt(b_high, a_high, low_passed)
  \<close>
\<close>

definition default_order :: nat where
  "default_order = 5"

definition combined_filter ::
  "'j lib \<Rightarrow> signal \<Rightarrow> real \<Rightarrow> real \<Rightarrow> real \<Rightarrow> nat \<Rightarrow> ('j, signal) comp" where
  "combined_filter L data lowcut highcut fs order =
     and_then (pydiv lowcut (0.5 * fs)) (\<lambda>wn_low.
     and_then (libcall (CallButter order wn_low Low) (butter L order wn_low Low)) (\<lambda>(b_low, a_low).
     and_then (libcall (CallFiltfilt b_low a_low data) (filtfilt L b_low a_low data)) (\<lambda>low_passed.
     and_then (pydiv highcut (0.5 * fs)) (\<lambda>wn_high.
     and_then (libcall (CallButter order wn_high High) (butter L order wn_high High)) (\<lambda>(b_high, a_high).
     libcall (CallFiltfilt b_high a_high low_passed) (filtfilt L b_high a_high low_passed))))))"

section \<open>\<open>process_data\<close>\<close>

text \<open>
  numpy's arithmetic on samples, as far as lines 57-59 and 85 use it: the square and the
  absolute value of NaN are NaN, a sum with a NaN term is NaN, \<open>np.mean\<close> is the sum
  divided by the length and is NaN for an empty array (with a warning, not an exception),
  \<open>np.sqrt\<close> of a negative number or of NaN is NaN.
\<close>

fun np_square :: "npval \<Rightarrow> npval" where
  "np_square (Val v) = Val (v ^ 2)"
| "np_square NaN = NaN"

fun np_abs :: "npval \<Rightarrow> npval" where
  "np_abs (Val v) = Val \<bar>v\<bar>"
| "np_abs NaN = NaN"

fun np_add :: "npval \<Rightarrow> npval \<Rightarrow> npval" where
  "np_add (Val a) (Val b) = Val (a + b)"
| "np_add _ _ = NaN"

definition np_mean :: "signal \<Rightarrow> npval" where
  "np_mean xs =
     (if xs = [] then NaN
      else case foldr np_add xs (Val 0) of
             NaN \<Rightarrow> NaN
           | Val acc \<Rightarrow> Val (acc / real (length xs)))"

definition np_sqrt :: "npval \<Rightarrow> npval" where
  "np_sqrt v = (case v of NaN \<Rightarrow> NaN | Val r \<Rightarrow> if r < 0 then NaN else Val (sqrt r))"

text \<open>\<open>df[k].values\<close>: a missing column raises KeyError.\<close>

definition column :: "(string \<times> signal) list \<Rightarrow> string \<Rightarrow> ('j, signal) comp" where
  "column df k = (case map_of df k of None \<Rightarrow> raise (KeyError k) | Some v \<Rightarrow> ret v)"

definition default_fs :: real where
  "default_fs = 1000"

text \<open>
  \<^verbatim>\<open>
  def process_data(data, lowcut, highcut, wavelet_type, decomposition_level, fs=1000):
      df = pd.DataFrame(data)
      if not all(col in df.columns for col in ["Time", "X", "Y", "Z"]):
          st.error("Data format is incorrect. Required columns: Time, X, Y, Z")
          return None
      timestamp, x, y, z = df["Time"].values, df["X"].values, df["Y"].values, df["Z"].values
      x_filtered_signal = combined_filter(x, lowcut, highcut, fs)
      y_filtered_signal = combined_filter(y, lowcut, highcut, fs)
      z_filtered_signal = combined_filter(z, lowcut, highcut, fs)
      stats = {
          'X': {"RMS": np.sqrt(np.mean(x_filtered_signal ** 2)), "Kurtosis": kurtosis(x_filtered_signal)},
          'Y': {"RMS": np.sqrt(np.mean(y_filtered_signal ** 2)), "Kurtosis": kurtosis(y_filtered_signal)},
          'Z': {"RMS": np.sqrt(np.mean(z_filtered_signal ** 2)), "Kurtosis": kurtosis(z_filtered_signal)},
      }
      st.write("### Scientific Metrics (RMS and Kurtosis)")
      st.json(stats)
      return timestamp, x_filtered_signal, y_filtered_signal, z_filtered_signal
  \<close>
  The calls of \<open>combined_filter\<close> leave \<open>order\<close> out, so it is the default 5. The
  statistics are computed in place, on the three outputs of \<open>combined_filter\<close> and on
  nothing else; of the two entries of each axis only \<open>kurtosis\<close> is a library call that
  can raise.
\<close>

definition process_data ::
  "'j lib \<Rightarrow> 'j list \<Rightarrow> real \<Rightarrow> real \<Rightarrow> string \<Rightarrow> nat \<Rightarrow> real \<Rightarrow>
     ('j, (signal \<times> signal \<times> signal \<times> signal) option) comp" where
  "process_data L data lowcut highcut wavelet_type decomposition_level fs =
     and_then (libcall (CallDataFrame data) (DataFrame L data)) (\<lambda>df.
       if \<not> list_all (\<lambda>col. col \<in> set (map fst df)) [''Time'', ''X'', ''Y'', ''Z'']
       then and_then (emit (StError (Text ''Data format is incorrect. Required columns: Time, X, Y, Z'')))
              (\<lambda>_. ret None)
       else
         and_then (column df ''Time'') (\<lambda>timestamp.
         and_then (column df ''X'') (\<lambda>x.
         and_then (column df ''Y'') (\<lambda>y.
         and_then (column df ''Z'') (\<lambda>z.
         and_then (combined_filter L x lowcut highcut fs default_order) (\<lambda>x_filtered_signal.
         and_then (combined_filter L y lowcut highcut fs default_order) (\<lambda>y_filtered_signal.
         and_then (combined_filter L z lowcut highcut fs default_order) (\<lambda>z_filtered_signal.
         and_then (libcall (CallKurtosis x_filtered_signal) (kurtosis L x_filtered_signal)) (\<lambda>kurtosis_x.
         and_then (libcall (CallKurtosis y_filtered_signal) (kurtosis L y_filtered_signal)) (\<lambda>kurtosis_y.
         and_then (libcall (CallKurtosis z_filtered_signal) (kurtosis L z_filtered_signal)) (\<lambda>kurtosis_z.
         and_then (emit (StWrite ''### Scientific Metrics (RMS and Kurtosis)'')) (\<lambda>_.
         and_then (emit (StJson
             [(''X'', \<lparr>RMS = np_sqrt (np_mean (map np_square x_filtered_signal)), Kurtosis = kurtosis_x\<rparr>),
              (''Y'', \<lparr>RMS = np_sqrt (np_mean (map np_square y_filtered_signal)), Kurtosis = kurtosis_y\<rparr>),
              (''Z'', \<lparr>RMS = np_sqrt (np_mean (map np_square z_filtered_signal)), Kurtosis = kurtosis_z\<rparr>)])) (\<lambda>_.
         ret (Some (timestamp, x_filtered_signal, y_filtered_signal, z_filtered_signal)))))))))))))))"

section \<open>\<open>plot_dwt_analysis\<close>\<close>

text \<open>\<open>np.linspace(start, stop, num)\<close>: \<open>num\<close> evenly spaced points, both ends included.\<close>

definition linspace :: "real \<Rightarrow> real \<Rightarrow> nat \<Rightarrow> real list" where
  "linspace start stop num =
     (if num = 0 then []
      else if num = 1 then [start]
      else map (\<lambda>i. start + real i * ((stop - start) / real (num - 1))) [0..<num])"

text \<open>
  \<^verbatim>\<open>
  coeffs = pywt.wavedec(signal, wavelet_type, level=decomposition_level)
  levels = len(coeffs) - 1
  time_indices = [np.linspace(0, len(signal), len(c)) for c in coeffs]
  fig = go.Figure()
  for level in range(1, levels + 1):
      t = time_indices[level]
      amplitude = np.abs(coeffs[level])
      fig.add_trace(...)
  st.plotly_chart(fig)
  \<close>
  For an empty \<open>coeffs\<close> Python has \<open>levels = -1\<close> and an empty range; the truncated
  subtraction gives \<open>levels = 0\<close> and the same empty range. Inside the range the index
  \<open>level\<close> is at most \<open>len(coeffs) - 1\<close>, so the indexing cannot raise. Axis titles of
  the layout are left out of the figure.
\<close>

definition plot_dwt_analysis ::
  "'j lib \<Rightarrow> signal \<Rightarrow> signal \<Rightarrow> string \<Rightarrow> string \<Rightarrow> nat \<Rightarrow> string \<Rightarrow> ('j, unit) comp" where
  "plot_dwt_analysis L timestamp sig title wavelet_type decomposition_level graph_type =
     and_then (libcall (CallWavedec sig wavelet_type decomposition_level)
                 (wavedec L sig wavelet_type decomposition_level)) (\<lambda>coeffs.
       let levels = length coeffs - 1;
           time_indices = map (\<lambda>c. linspace 0 (real (length sig)) (length c)) coeffs
       in if graph_type = ''3D''
          then emit (StPlotlyChart
                 \<lparr>fig_title = title @ '' - Time vs Level vs Amplitude'',
                  fig_traces = map (\<lambda>level.
                      Scatter3d level (time_indices ! level)
                        (replicate (length (time_indices ! level)) level)
                        (map np_abs (coeffs ! level))) [1..<levels + 1]\<rparr>)
          else emit (StPlotlyChart
                 \<lparr>fig_title = title @ '' - Time vs Amplitude'',
                  fig_traces = map (\<lambda>level.
                      Scatter level (time_indices ! level) (map np_abs (coeffs ! level)))
                    [1..<levels + 1]\<rparr>))"

section \<open>The analysis loop\<close>

text \<open>The sidebar values (lines 117-122). There is no field for the sample rate or the
  filter order.\<close>

record config =
  cfg_ws_url :: string
  cfg_lowcut :: real
  cfg_highcut :: real
  cfg_wavelet_type :: string
  cfg_decomposition_level :: nat
  cfg_graph_type :: string

text \<open>The body of the \<open>for\<close> loop (lines 129-148) for one yielded buffer.
  \<open>process_data\<close> is called without \<open>fs\<close>, so it is the default 1000.\<close>

definition cycle :: "'j lib \<Rightarrow> config \<Rightarrow> 'j list \<Rightarrow> ('j, unit) comp" where
  "cycle L cfg real_time_data =
     and_then (process_data L real_time_data (cfg_lowcut cfg) (cfg_highcut cfg)
                 (cfg_wavelet_type cfg) (cfg_decomposition_level cfg) default_fs) (\<lambda>results.
     and_then
       (case results of
          Some (timestamp, x_filtered_signal, y_filtered_signal, z_filtered_signal) \<Rightarrow>
            and_then (emit (StSuccess ''Data successfully fetched and processed.'')) (\<lambda>_.
            and_then (emit (StWrite ''### X-Axis Vibration Analysis'')) (\<lambda>_.
            and_then (plot_dwt_analysis L timestamp x_filtered_signal ''X-Axis Vibration''
                        (cfg_wavelet_type cfg) (cfg_decomposition_level cfg) (cfg_graph_type cfg)) (\<lambda>_.
            and_then (emit (StWrite ''### Y-Axis Vibration Analysis'')) (\<lambda>_.
            and_then (plot_dwt_analysis L timestamp y_filtered_signal ''Y-Axis Vibration''
                        (cfg_wavelet_type cfg) (cfg_decomposition_level cfg) (cfg_graph_type cfg)) (\<lambda>_.
            and_then (emit (StWrite ''### Z-Axis Vibration Analysis'')) (\<lambda>_.
            plot_dwt_analysis L timestamp z_filtered_signal ''Z-Axis Vibration''
              (cfg_wavelet_type cfg) (cfg_decomposition_level cfg) (cfg_graph_type cfg)))))))
        | None \<Rightarrow>
            emit (StWarning ''No valid data received for unpacking. Please verify the data format and source.''))
       (\<lambda>_. emit Sleep))"

text \<open>
  \<^verbatim>\<open>
  try:
      for real_time_data in fetch_data_ws(ws_url_input):
          ... cycle ...
  except Exception as e:
      st.error(f"Error in real-time analysis: {e}")
  \<close>
  The loop is run on a finite prefix of what the socket delivers: each item is the outcome
  of \<open>json.loads(ws.recv())\<close>, a decoded message or the exception raised. When the prefix
  is used up the loop is blocked in \<open>recv\<close>, still running, holding the buffer. A
  WebSocketException is caught inside the generator (line 34), which reports it and ends,
  so the \<open>for\<close> loop ends normally; any other exception, from the generator or from the
  loop body, leaves the \<open>for\<close> loop and reaches the handler of line 149.
\<close>

datatype 'j loop_end = AwaitingRecv "'j list" | LoopEnded

fun analysis_loop ::
  "'j lib \<Rightarrow> config \<Rightarrow> 'j list \<Rightarrow> (exn + 'j) list \<Rightarrow> 'j event list \<times> 'j loop_end" where
  "analysis_loop L cfg buf [] = ([], AwaitingRecv buf)"
| "analysis_loop L cfg buf (Inl e # rest) =
     (case e of
        WebSocketException m \<Rightarrow> ([StError (TextExn ''WebSocket error: '' e)], LoopEnded)
      | _ \<Rightarrow> ([StError (TextExn ''Error in real-time analysis: '' e)], LoopEnded))"
| "analysis_loop L cfg buf (Inr d # rest) =
     (let real_time_data = push buf d
      in case cycle L cfg real_time_data of
           (evs, Inl e) \<Rightarrow> (evs @ [StError (TextExn ''Error in real-time analysis: '' e)], LoopEnded)
         | (evs, Inr _) \<Rightarrow>
             (case analysis_loop L cfg real_time_data rest of
                (evs', fin) \<Rightarrow> (evs @ evs', fin)))"

text \<open>Lines 125-152: the button, the connection (whose failure is an exception inside the
  \<open>try\<close>), and the loop on an empty buffer.\<close>

definition main ::
  "'j lib \<Rightarrow> config \<Rightarrow> bool \<Rightarrow> exn option \<Rightarrow> (exn + 'j) list \<Rightarrow> 'j event list \<times> 'j loop_end" where
  "main L cfg start_pressed connect_failure incoming =
     (if start_pressed
      then (case connect_failure of
              Some e \<Rightarrow>
                ([StInfo ''Connecting to WebSocket and analyzing data. Please wait...'',
                  StError (TextExn ''Error in real-time analysis: '' e)], LoopEnded)
            | None \<Rightarrow>
                (case analysis_loop L cfg [] incoming of
                   (evs, fin) \<Rightarrow>
                     (StInfo ''Connecting to WebSocket and analyzing data. Please wait...'' # evs, fin)))
      else ([StWarning ''Press 'Start Real-Time Analysis' to begin data acquisition.''], LoopEnded))"

section \<open>The multilevel wavelet transform\<close>

text \<open>
  Modelled from the spec: \<open>pywt.wavedec\<close>, the multilevel decomposition that
  \<open>plot_dwt_analysis\<close> calls; its code is a library's and not part of the program. The spec
  (4.3): the signal is split into an approximation and a detail band \<open>levels\<close> times, at
  each step the current approximation being replaced by a new (approximation, detail)
  pair. The single split \<open>dwt\<close> stays a parameter and may fail. The result lists the final
  approximation first, then the detail bands from the last split to the first.
\<close>

fun wavedec_steps ::
  "(signal \<Rightarrow> string \<Rightarrow> exn + (signal \<times> signal)) \<Rightarrow> string \<Rightarrow> nat \<Rightarrow> signal
     \<Rightarrow> exn + (signal \<times> signal list)" where
  "wavedec_steps dwt w 0 a = Inr (a, [])"
| "wavedec_steps dwt w (Suc n) a =
     (case dwt a w of
        Inl e \<Rightarrow> Inl e
      | Inr (a', d) \<Rightarrow>
          (case wavedec_steps dwt w n a' of
             Inl e \<Rightarrow> Inl e
           | Inr (a'', ds) \<Rightarrow> Inr (a'', ds @ [d])))"

text \<open>
  Modelled from the spec: the result of \<open>pywt.wavedec\<close> as one list of coefficient
  arrays, the final approximation band first, the detail bands after it.
\<close>

definition wavedec_model ::
  "(signal \<Rightarrow> string \<Rightarrow> exn + (signal \<times> signal)) \<Rightarrow> signal \<Rightarrow> string \<Rightarrow> nat
     \<Rightarrow> exn + signal list" where
  "wavedec_model dwt x w levels =
     (case wavedec_steps dwt w levels x of Inl e \<Rightarrow> Inl e | Inr (a, ds) \<Rightarrow> Inr (a # ds))"

section \<open>An instance of the library interface\<close>

text \<open>
  To run the model on concrete inputs the library parameters need values. This instance
  follows the argument checks the libraries document: \<open>butter\<close> rejects a critical
  frequency outside \<open>0 < Wn < 1\<close>; \<open>filtfilt\<close> rejects an input not longer than
  \<open>padlen = 3 * max(len(a), len(b))\<close>; \<open>wavedec\<close> accepts any level (PyWavelets 1.x
  warns when the level is above \<open>dwt_max_level\<close> and goes on). The filter kernels are
  stand-ins: \<open>butter\<close> returns coefficient vectors of the right length, and \<open>filtfilt\<close>
  returns its input, or, as the recursive filter does, NaN everywhere when a sample of
  the input is NaN. The wavelet is the Haar wavelet with symmetric extension, the kurtosis
  is the excess kurtosis of the biased moments (NaN when a sample is NaN or the variance
  is zero), and a message is a JSON object of numbers or NaN, all messages with the same
  keys.
\<close>

definition ref_butter :: "nat \<Rightarrow> real \<Rightarrow> btype \<Rightarrow> exn + (real list \<times> real list)" where
  "ref_butter order wn bt =
     (if 0 < wn \<and> wn < 1 then Inr (replicate (order + 1) 1, replicate (order + 1) 1)
      else Inl (ValueError ''Digital filter critical frequencies must be 0 < Wn < 1''))"

definition ref_filtfilt :: "real list \<Rightarrow> real list \<Rightarrow> signal \<Rightarrow> exn + signal" where
  "ref_filtfilt b a x =
     (if length x \<le> 3 * max (length a) (length b)
      then Inl (ValueError ''The length of the input vector x must be greater than padlen'')
      else if NaN \<in> set x then Inr (replicate (length x) NaN)
      else Inr x)"

fun num_of :: "npval \<Rightarrow> real" where
  "num_of (Val v) = v"
| "num_of NaN = 0"

definition ref_kurtosis :: "signal \<Rightarrow> exn + npval" where
  "ref_kurtosis xs =
     (if xs = [] \<or> NaN \<in> set xs then Inr NaN
      else let n = real (length xs);
               mu = sum_list (map num_of xs) / n;
               m2 = sum_list (map (\<lambda>v. (num_of v - mu) ^ 2) xs) / n;
               m4 = sum_list (map (\<lambda>v. (num_of v - mu) ^ 4) xs) / n
           in if m2 = 0 then Inr NaN else Inr (Val (m4 / m2 ^ 2 - 3)))"

fun haar_pairs :: "signal \<Rightarrow> (npval \<times> npval) list" where
  "haar_pairs [] = []"
| "haar_pairs [x] = [(x, x)]"
| "haar_pairs (x # y # xs) = (x, y) # haar_pairs xs"

fun haar_low :: "npval \<times> npval \<Rightarrow> npval" where
  "haar_low (Val p, Val q) = Val ((p + q) / sqrt 2)"
| "haar_low _ = NaN"

fun haar_high :: "npval \<times> npval \<Rightarrow> npval" where
  "haar_high (Val p, Val q) = Val ((p - q) / sqrt 2)"
| "haar_high _ = NaN"

definition haar_dwt :: "signal \<Rightarrow> string \<Rightarrow> exn + (signal \<times> signal)" where
  "haar_dwt x w =
     (if w \<noteq> ''haar'' then Inl (ValueError ''Unknown wavelet name'')
      else if x = [] then Inl (ValueError ''Invalid input length'')
      else Inr (map haar_low (haar_pairs x), map haar_high (haar_pairs x)))"

definition ref_DataFrame :: "(string \<times> npval) list list \<Rightarrow> exn + (string \<times> signal) list" where
  "ref_DataFrame rows =
     (case rows of
        [] \<Rightarrow> Inr []
      | r # _ \<Rightarrow>
          if list_all (\<lambda>r'. map fst r' = map fst r) rows
          then Inr (map (\<lambda>k. (k, map (\<lambda>r'. case map_of r' k of Some v \<Rightarrow> v | None \<Rightarrow> NaN) rows))
                      (map fst r))
          else Inl (OtherException ''rows with different keys''))"

definition ref_lib :: "(string \<times> npval) list lib" where
  "ref_lib =
     \<lparr>DataFrame = ref_DataFrame, butter = ref_butter, filtfilt = ref_filtfilt,
      kurtosis = ref_kurtosis, wavedec = wavedec_model haar_dwt\<rparr>"

text \<open>A message with the four required fields, and a configuration with the sidebar's
  default cutoffs and level.\<close>

definition sample :: "npval \<Rightarrow> npval \<Rightarrow> npval \<Rightarrow> npval \<Rightarrow> (string \<times> npval) list" where
  "sample t x y z = [(''Time'', t), (''X'', x), (''Y'', y), (''Z'', z)]"

definition test_config :: config where
  "test_config =
     \<lparr>cfg_ws_url = ''ws://192.168.1.1:80'', cfg_lowcut = 0.5, cfg_highcut = 20,
      cfg_wavelet_type = ''haar'', cfg_decomposition_level = 3, cfg_graph_type = ''3D''\<rparr>"

section \<open>Arguments of the filter design calls\<close>

text \<open>What is asked of an event of the log: a call of \<open>butter\<close> has the given order and
  is a low-pass design at \<open>lo / (0.5 * fs)\<close> or a high-pass design at
  \<open>hi / (0.5 * fs)\<close>. Other events are not constrained.\<close>

fun butter_args_ok :: "real \<Rightarrow> real \<Rightarrow> real \<Rightarrow> nat \<Rightarrow> 'j event \<Rightarrow> bool" where
  "butter_args_ok lo hi fs n (CallButter order wn bt) =
     (order = n \<and> (bt = Low \<and> wn = lo / (0.5 * fs) \<or> bt = High \<and> wn = hi / (0.5 * fs)))"
| "butter_args_ok lo hi fs n _ = True"

section \<open>Properties of the sample buffer\<close>

lemma buffer_step_below: "Suc (length buf) < bound \<Longrightarrow> buffer_step bound buf d = buf @ [d]"
  by (simp add: buffer_step_def)

lemma buffer_step_reached: "bound \<le> Suc (length buf) \<Longrightarrow> buffer_step bound buf d = tl (buf @ [d])"
  by (simp add: buffer_step_def)

lemma foldl_push_upt:
  "n < 99 \<Longrightarrow> foldl push [] [1..<Suc (Suc n)] = [1..<Suc (Suc n)]"
proof (induction n)
  case 0
  then show ?case by (simp add: push_def buffer_step_def buffer_limit_def)
next
  case (Suc n)
  then have "foldl push [] [1..<Suc (Suc n)] = [1..<Suc (Suc n)]" by simp
  then have "foldl push [] [1..<Suc (Suc (Suc n))] = push [1..<Suc (Suc n)] (Suc (Suc n))"
    by simp
  also have "\<dots> = [1..<Suc (Suc n)] @ [Suc (Suc n)]"
    using Suc.prems by (simp add: push_def buffer_step_def buffer_limit_def)
  finally show ?case by simp
qed

text \<open>
  C1. The claim: the oldest entry is evicted only when the length after the append exceeds
  the capacity. The code evicts as soon as the length after the append reaches the limit:
  with limit 3 the timestamps 1,2,3,4 leave 3,4 (not 2,3,4), and with the source's limit
  of 100 the buffer yielded after the 100th message holds the 99 messages 2..100.
\<close>

theorem buffer_evicts_at_limit:
  "foldl (buffer_step 3) [] [1, 2, 3, 4 :: nat] = [3, 4]
   \<and> foldl push [] [1..<101] = [2..<101]
   \<and> length (foldl push [] [1..<101]) = 99"
proof -
  have a: "foldl (buffer_step 3) [] [1, 2, 3, 4 :: nat] = [3, 4]"
    by (simp add: buffer_step_def)
  have "foldl push [] [1..<100] = [1..<100]"
    using foldl_push_upt [of 98] by (simp add: eval_nat_numeral)
  moreover have "[1..<101] = [1..<100] @ [100]"
    by (simp add: eval_nat_numeral)
  ultimately have "foldl push [] [1..<101] = push [1..<100] 100"
    by simp
  also have "\<dots> = tl ([1..<100] @ [100])"
    by (simp add: push_def buffer_limit_def buffer_step_reached)
  also have "\<dots> = tl [1..<101]"
    by (simp add: eval_nat_numeral)
  also have "\<dots> = [2..<101]"
    by (simp add: upt_conv_Cons del: upt_Suc)
  finally have b: "foldl push [] [1..<101] = [2..<101]" .
  from a b show ?thesis by simp
qed

lemma gen_run_fst: "fst (gen_run a s ds) = replicate (length ds) a"
  by (induction ds arbitrary: s) (simp_all add: gen_next_def case_prod_unfold)

lemma gen_run_cells:
  "cells (snd (gen_run a s ds)) = (cells s)(a := foldl push (cells s a) ds)"
proof (induction ds arbitrary: s)
  case Nil
  then show ?case by simp
next
  case (Cons d ds)
  show ?case
    by (auto simp add: gen_next_def Cons.IH case_prod_unfold fun_eq_iff)
qed

text \<open>
  C2, as stated: the contents of a snapshot already handed out do not change under later
  pushes. In the code the yielded value is the buffer object: after the first message the
  consumer holds an address whose contents are \<open>[1]\<close>; after the second message the same
  address reads \<open>[1, 2]\<close>.
\<close>

theorem snapshot_is_live_counterexample:
  "\<not> (let (a, s0) = alloc_list (empty_store :: nat store);
          (r1, s1) = gen_next a s0 1;
          (r2, s2) = gen_next a s1 2
      in deref s2 r1 = deref s1 r1)"
  by (simp add: alloc_list_def empty_store_def gen_next_def deref_def push_def
      buffer_step_def buffer_limit_def)

text \<open>
  C2, amended: every yield returns the same object, the buffer itself, and reading any
  yielded value after later pushes gives the current contents of the buffer, that is the
  contents at the start followed by all pushes so far (with their evictions).
\<close>

theorem snapshot_reads_current_buffer:
  "r \<in> set (fst (gen_run a s ds)) \<Longrightarrow>
     r = a \<and> deref (snd (gen_run a s ds)) r = foldl push (deref s a) ds"
  by (simp add: gen_run_fst gen_run_cells deref_def)

theorem snapshot_reads_current_buffer_witness:
  "(0::nat) \<in> set (fst (gen_run 0 empty_store [5, 6 :: nat]))
   \<and> deref (snd (gen_run 0 empty_store [5, 6 :: nat])) 0 = [5, 6]"
proof -
  have h: "(0::nat) \<in> set (fst (gen_run 0 empty_store [5, 6 :: nat]))"
    by (simp add: gen_next_def split: prod.splits)
  have "foldl push (deref empty_store 0) [5, 6 :: nat] = [5, 6]"
    by (simp add: deref_def empty_store_def push_def buffer_step_def buffer_limit_def)
  with h snapshot_reads_current_buffer [OF h] show ?thesis by simp
qed


section \<open>Properties of \<open>combined_filter\<close>\<close>

lemma and_then_Inr_iff:
  "and_then m f = (evs, Inr y) \<longleftrightarrow>
     (\<exists>evs1 x evs2. m = (evs1, Inr x) \<and> f x = (evs2, Inr y) \<and> evs = evs1 @ evs2)"
  by (cases m; cases "snd m") (auto simp: and_then_def split: prod.splits sum.splits)

lemma libcall_Inr_iff: "libcall ev r = (evs, Inr y) \<longleftrightarrow> r = Inr y \<and> evs = [ev]"
  by (auto simp: libcall_def)

lemma pydiv_Inr_iff: "pydiv x y = (evs, Inr q) \<longleftrightarrow> y \<noteq> 0 \<and> q = x / y \<and> evs = []"
  by (auto simp: pydiv_def raise_def ret_def)

lemma combined_filter_Inr_iff:
  assumes "fs \<noteq> 0"
  shows "combined_filter L data lowcut highcut fs order = (evs, Inr out) \<longleftrightarrow>
     (\<exists>b_low a_low low_passed b_high a_high.
        butter L order (lowcut / (0.5 * fs)) Low = Inr (b_low, a_low)
      \<and> filtfilt L b_low a_low data = Inr low_passed
      \<and> butter L order (highcut / (0.5 * fs)) High = Inr (b_high, a_high)
      \<and> filtfilt L b_high a_high low_passed = Inr out
      \<and> evs = [CallButter order (lowcut / (0.5 * fs)) Low,
               CallFiltfilt b_low a_low data,
               CallButter order (highcut / (0.5 * fs)) High,
               CallFiltfilt b_high a_high low_passed])"
  using assms
  unfolding combined_filter_def
  by (auto simp: and_then_Inr_iff libcall_Inr_iff pydiv_Inr_iff)


text \<open>
  C4. \<open>combined_filter\<close> is a low-pass then high-pass cascade in that order: a call
  succeeds with output \<open>out\<close> exactly when \<open>butter\<close> designs a low-pass filter at
  \<open>lowcut / (0.5 * fs)\<close>, \<open>filtfilt\<close> (scipy's forward-backward, zero-phase filter)
  applies it to the raw data, \<open>butter\<close> designs a high-pass filter at
  \<open>highcut / (0.5 * fs)\<close>, and \<open>filtfilt\<close> applies that to the low-pass output, giving
  \<open>out\<close>; and these four library calls are made in exactly this order.
\<close>

theorem combined_filter_cascade:
  assumes "fs \<noteq> 0"
  shows "combined_filter L data lowcut highcut fs order = (evs, Inr out) \<longleftrightarrow>
     (\<exists>b_low a_low low_passed b_high a_high.
        butter L order (lowcut / (0.5 * fs)) Low = Inr (b_low, a_low)
      \<and> filtfilt L b_low a_low data = Inr low_passed
      \<and> butter L order (highcut / (0.5 * fs)) High = Inr (b_high, a_high)
      \<and> filtfilt L b_high a_high low_passed = Inr out
      \<and> evs = [CallButter order (lowcut / (0.5 * fs)) Low,
               CallFiltfilt b_low a_low data,
               CallButter order (highcut / (0.5 * fs)) High,
               CallFiltfilt b_high a_high low_passed])"
  using assms by (rule combined_filter_Inr_iff)

theorem combined_filter_cascade_witness:
  "(1000::real) \<noteq> 0 \<and>
   combined_filter ref_lib (replicate 20 (Val 1)) 0.5 20 1000 5 =
     ([CallButter 5 (0.5 / (0.5 * 1000)) Low,
       CallFiltfilt (replicate 6 1) (replicate 6 1) (replicate 20 (Val 1)),
       CallButter 5 (20 / (0.5 * 1000)) High,
       CallFiltfilt (replicate 6 1) (replicate 6 1) (replicate 20 (Val 1))], Inr (replicate 20 (Val 1)))"
proof -
  have h: "(1000::real) \<noteq> 0" by simp
  have "butter ref_lib 5 (0.5 / (0.5 * 1000)) Low = Inr (replicate 6 1, replicate 6 1)"
    by (simp add: ref_lib_def ref_butter_def)
  moreover have "butter ref_lib 5 (20 / (0.5 * 1000)) High = Inr (replicate 6 1, replicate 6 1)"
    by (simp add: ref_lib_def ref_butter_def)
  moreover have "filtfilt ref_lib (replicate 6 1) (replicate 6 1) (replicate 20 (Val 1)) = Inr (replicate 20 (Val 1))"
    by (simp add: ref_lib_def ref_filtfilt_def)
  ultimately show ?thesis
    using h combined_filter_cascade [OF h, of ref_lib "replicate 20 (Val 1)" "0.5" "20" 5] by blast
qed

lemma combined_filter_out:
  "combined_filter L data lowcut highcut fs order = (evs, Inr out) \<Longrightarrow>
     \<exists>b a low_passed b' a'. filtfilt L b a data = Inr low_passed \<and> filtfilt L b' a' low_passed = Inr out"
  unfolding combined_filter_def
  by (auto simp: and_then_Inr_iff libcall_Inr_iff pydiv_Inr_iff) blast

text \<open>
  C5. Given that the library's \<open>filtfilt\<close> returns an array of the shape of its input
  (scipy's contract), a successful \<open>combined_filter\<close> returns a signal of the length of
  its input. It is deterministic: its result is a function of the data, the cutoffs, the
  sample rate, the order and the two library routines it calls, and of nothing else.
\<close>

theorem combined_filter_length:
  assumes same_shape: "\<forall>b a x y. filtfilt L b a x = Inr y \<longrightarrow> length y = length x"
      and ok: "combined_filter L data lowcut highcut fs order = (evs, Inr out)"
  shows "length out = length data
       \<and> (\<forall>L'. butter L' = butter L \<and> filtfilt L' = filtfilt L \<longrightarrow>
             combined_filter L' data lowcut highcut fs order = (evs, Inr out))"
proof
  from combined_filter_out [OF ok] obtain b a low_passed b' a'
    where 1: "filtfilt L b a data = Inr low_passed" and 2: "filtfilt L b' a' low_passed = Inr out"
    by blast
  from same_shape 1 have "length low_passed = length data" by blast
  moreover from same_shape 2 have "length out = length low_passed" by blast
  ultimately show "length out = length data" by simp
next
  show "\<forall>L'. butter L' = butter L \<and> filtfilt L' = filtfilt L \<longrightarrow>
          combined_filter L' data lowcut highcut fs order = (evs, Inr out)"
    using ok by (simp add: combined_filter_def)
qed

theorem combined_filter_length_witness:
  "snd (combined_filter ref_lib (map (\<lambda>i. Val (real i)) [0..<25]) 0.5 20 1000 5) = Inr (map (\<lambda>i. Val (real i)) [0..<25])
   \<and> length (map (\<lambda>i. Val (real i)) [0..<25]) = 25"
proof -
  have h1: "\<forall>b a x y. filtfilt ref_lib b a x = Inr y \<longrightarrow> length y = length x"
    by (simp add: ref_lib_def ref_filtfilt_def)
  have h2: "combined_filter ref_lib (map (\<lambda>i. Val (real i)) [0..<25]) 0.5 20 1000 5 =
     ([CallButter 5 (0.5 / (0.5 * 1000)) Low,
       CallFiltfilt (replicate 6 1) (replicate 6 1) (map (\<lambda>i. Val (real i)) [0..<25]),
       CallButter 5 (20 / (0.5 * 1000)) High,
       CallFiltfilt (replicate 6 1) (replicate 6 1) (map (\<lambda>i. Val (real i)) [0..<25])],
      Inr (map (\<lambda>i. Val (real i)) [0..<25]))"
    by (auto simp add: combined_filter_def and_then_def pydiv_def ret_def libcall_def
        ref_lib_def ref_butter_def ref_filtfilt_def)
  from h2 combined_filter_length [OF h1 h2] show ?thesis by simp
qed

lemma combined_filter_Inl:
  assumes "combined_filter L data lowcut highcut fs order = (evs, Inl e)" and "fs \<noteq> 0"
  shows "butter L order (lowcut / (0.5 * fs)) Low = Inl e
       \<or> butter L order (highcut / (0.5 * fs)) High = Inl e
       \<or> (\<exists>b a x. filtfilt L b a x = Inl e)"
  using assms unfolding combined_filter_def
  by (auto simp: and_then_def libcall_def pydiv_def ret_def raise_def
      split: sum.splits prod.splits if_splits)

text \<open>
  C6, as stated: the call fails with InvalidSpecError. The program defines no such error
  and raises nothing of its own in \<open>combined_filter\<close>: with a low cutoff of 600 Hz at a
  sample rate of 1000 Hz, above the Nyquist frequency of 500 Hz, the exception that leaves
  the call is the ValueError of \<open>butter\<close>.
\<close>

theorem cutoff_above_nyquist_counterexample:
  "combined_filter ref_lib (replicate 20 (Val 1)) 600 20 1000 5 =
     ([CallButter 5 (600 / (0.5 * 1000)) Low],
      Inl (ValueError ''Digital filter critical frequencies must be 0 < Wn < 1''))"
  by (simp add: combined_filter_def and_then_def pydiv_def ret_def libcall_def
      ref_lib_def ref_butter_def)

text \<open>
  C6, amended. Given the argument checks of the library (\<open>butter\<close> raises ValueError for
  a critical frequency outside \<open>0 < Wn < 1\<close> and returns coefficient vectors of length
  \<open>order + 1\<close>; \<open>filtfilt\<close> raises ValueError for an input not longer than
  \<open>3 * max(len(a), len(b))\<close>; neither raises anything but ValueError) and a positive
  sample rate: when a cutoff is at most 0 or at least the Nyquist frequency \<open>0.5 * fs\<close>,
  or the signal has at most \<open>3 * (order + 1)\<close> samples, the call returns no signal and
  fails with a ValueError, which is the exception of the library call that failed, passed
  on unchanged.
\<close>

theorem combined_filter_rejects:
  assumes butter_range:
        "\<forall>n wn bt. \<not> (0 < wn \<and> wn < 1) \<longrightarrow> (\<exists>m. butter L n wn bt = Inl (ValueError m))"
      and butter_len:
        "\<forall>n wn bt b a. butter L n wn bt = Inr (b, a) \<longrightarrow> length b = n + 1 \<and> length a = n + 1"
      and filtfilt_padlen:
        "\<forall>b a x. length x \<le> 3 * max (length a) (length b) \<longrightarrow> (\<exists>m. filtfilt L b a x = Inl (ValueError m))"
      and butter_errors: "\<forall>n wn bt e. butter L n wn bt = Inl e \<longrightarrow> (\<exists>m. e = ValueError m)"
      and filtfilt_errors: "\<forall>b a x e. filtfilt L b a x = Inl e \<longrightarrow> (\<exists>m. e = ValueError m)"
      and fs: "0 < fs"
      and bad: "lowcut \<le> 0 \<or> 0.5 * fs \<le> lowcut \<or> highcut \<le> 0 \<or> 0.5 * fs \<le> highcut
                \<or> length data \<le> 3 * (order + 1)"
  shows "\<exists>evs m. combined_filter L data lowcut highcut fs order = (evs, Inl (ValueError m))
           \<and> (butter L order (lowcut / (0.5 * fs)) Low = Inl (ValueError m)
              \<or> butter L order (highcut / (0.5 * fs)) High = Inl (ValueError m)
              \<or> (\<exists>b a x. filtfilt L b a x = Inl (ValueError m)))"
proof -
  from fs have fs0: "fs \<noteq> 0" by simp
  have no_output: "combined_filter L data lowcut highcut fs order \<noteq> (evs, Inr out)" for evs out
  proof
    assume ok: "combined_filter L data lowcut highcut fs order = (evs, Inr out)"
    from ok combined_filter_Inr_iff [OF fs0, of L data lowcut highcut order evs out]
    obtain b_low a_low low_passed b_high a_high where
          bl: "butter L order (lowcut / (0.5 * fs)) Low = Inr (b_low, a_low)"
      and fl: "filtfilt L b_low a_low data = Inr low_passed"
      and bh: "butter L order (highcut / (0.5 * fs)) High = Inr (b_high, a_high)"
      by blast
    from bl butter_range have "0 < lowcut / (0.5 * fs) \<and> lowcut / (0.5 * fs) < 1"
      by (metis sum.distinct(1))
    with fs have lo: "0 < lowcut \<and> lowcut < 0.5 * fs"
      by (simp add: zero_less_divide_iff)
    from bh butter_range have "0 < highcut / (0.5 * fs) \<and> highcut / (0.5 * fs) < 1"
      by (metis sum.distinct(1))
    with fs have hi: "0 < highcut \<and> highcut < 0.5 * fs"
      by (simp add: zero_less_divide_iff)
    from bl butter_len have "length b_low = order + 1 \<and> length a_low = order + 1" by blast
    moreover from fl filtfilt_padlen have "\<not> length data \<le> 3 * max (length a_low) (length b_low)"
      by (metis sum.distinct(1))
    ultimately have "\<not> length data \<le> 3 * (order + 1)" by simp
    with lo hi bad show False by linarith
  qed
  obtain evs r where run: "combined_filter L data lowcut highcut fs order = (evs, r)"
    by (cases "combined_filter L data lowcut highcut fs order")
  with no_output obtain e where r: "r = Inl e"
    by (cases r) auto
  from combined_filter_Inl [OF run [unfolded r] fs0]
  have lib: "butter L order (lowcut / (0.5 * fs)) Low = Inl e
       \<or> butter L order (highcut / (0.5 * fs)) High = Inl e
       \<or> (\<exists>b a x. filtfilt L b a x = Inl e)" .
  with butter_errors filtfilt_errors obtain m where "e = ValueError m"
    by blast
  with run r lib show ?thesis by blast
qed

theorem combined_filter_rejects_witness:
  "(0::real) < 1000
   \<and> (0.5 * 1000 \<le> (20::real) \<or> length (replicate 10 (Val 1)) \<le> 3 * (5 + 1))
   \<and> (\<exists>evs m. combined_filter ref_lib (replicate 10 (Val 1)) 0.5 20 1000 5 = (evs, Inl (ValueError m)))"
proof -
  have h1: "\<forall>n wn bt. \<not> (0 < wn \<and> wn < 1) \<longrightarrow> (\<exists>m. butter ref_lib n wn bt = Inl (ValueError m))"
    by (simp add: ref_lib_def ref_butter_def)
  have h2: "\<forall>n wn bt b a. butter ref_lib n wn bt = Inr (b, a) \<longrightarrow> length b = n + 1 \<and> length a = n + 1"
    by (auto simp add: ref_lib_def ref_butter_def split: if_splits)
  have h3: "\<forall>b a x. length x \<le> 3 * max (length a) (length b) \<longrightarrow>
              (\<exists>m. filtfilt ref_lib b a x = Inl (ValueError m))"
    by (simp add: ref_lib_def ref_filtfilt_def)
  have h4: "\<forall>n wn bt e. butter ref_lib n wn bt = Inl e \<longrightarrow> (\<exists>m. e = ValueError m)"
    by (auto simp add: ref_lib_def ref_butter_def split: if_splits)
  have h5: "\<forall>b a x e. filtfilt ref_lib b a x = Inl e \<longrightarrow> (\<exists>m. e = ValueError m)"
    by (auto simp add: ref_lib_def ref_filtfilt_def split: if_splits)
  have h6: "(0::real) < 1000" by simp
  have h7: "(0.5::real) \<le> 0 \<or> 0.5 * 1000 \<le> (0.5::real) \<or> (20::real) \<le> 0 \<or> 0.5 * 1000 \<le> (20::real)
            \<or> length (replicate 10 (Val 1)) \<le> 3 * (5 + 1)"
    by simp
  from combined_filter_rejects [OF h1 h2 h3 h4 h5 h6 h7] show ?thesis by auto
qed

section \<open>Properties of the statistics\<close>

lemma foldr_np_add_NaN: "NaN \<in> set xs \<Longrightarrow> foldr np_add xs a = NaN"
proof (induction xs)
  case Nil
  then show ?case by simp
next
  case (Cons x xs)
  show ?case
  proof (cases "NaN \<in> set xs")
    case True
    with Cons.IH show ?thesis by (cases x) simp_all
  next
    case False
    with Cons.prems have "x = NaN" by simp
    then show ?thesis by simp
  qed
qed

lemma sum_list_squares_nonneg: "0 \<le> sum_list (map (\<lambda>v. v ^ 2) (rs :: real list))"
  by (induction rs) simp_all

lemma foldr_np_add_squares:
  "foldr np_add (map np_square (map Val rs)) (Val a) = Val (sum_list (map (\<lambda>v. v ^ 2) rs) + a)"
  by (induction rs) simp_all

lemma rms_numbers:
  assumes "rs \<noteq> []"
  shows "np_sqrt (np_mean (map np_square (map Val rs)))
           = Val (sqrt (sum_list (map (\<lambda>v. v ^ 2) rs) / real (length rs)))"
proof -
  have "np_mean (map np_square (map Val rs))
               = Val (sum_list (map (\<lambda>v. v ^ 2) rs) / real (length rs))"
    unfolding np_mean_def foldr_np_add_squares using assms by simp
  moreover have "0 \<le> sum_list (map (\<lambda>v. v ^ 2) rs) / real (length rs)"
    using sum_list_squares_nonneg [of rs] by (simp add: divide_nonneg_nonneg)
  ultimately show ?thesis by (simp add: np_sqrt_def not_less)
qed

lemma rms_nan:
  assumes "NaN \<in> set xs"
  shows "np_sqrt (np_mean (map np_square xs)) = NaN"
proof -
  from assms have "np_square NaN \<in> set (map np_square xs)"
    by (simp only: set_map) (rule imageI)
  then have "NaN \<in> set (map np_square xs)" by simp
  then have "foldr np_add (map np_square xs) (Val 0) = NaN" by (rule foldr_np_add_NaN)
  then show ?thesis by (simp add: np_mean_def np_sqrt_def)
qed

lemma emit_Inr_iff: "emit ev = (evs, Inr u) \<longleftrightarrow> evs = [ev]"
  by (auto simp: emit_def)

lemma ret_Inr_iff: "ret x = (evs, Inr y) \<longleftrightarrow> evs = [] \<and> y = x"
  by (auto simp: ret_def)

lemma column_Inr_iff: "column df k = (evs, Inr v) \<longleftrightarrow> map_of df k = Some v \<and> evs = []"
  by (auto simp: column_def raise_def ret_def split: option.splits)

lemma process_data_Some:
  assumes "process_data L data lowcut highcut w n fs = (evs, Inr (Some (timestamp, xf, yf, zf)))"
  shows "\<exists>x y z ex ey ez kx ky kz.
           combined_filter L x lowcut highcut fs default_order = (ex, Inr xf)
         \<and> combined_filter L y lowcut highcut fs default_order = (ey, Inr yf)
         \<and> combined_filter L z lowcut highcut fs default_order = (ez, Inr zf)
         \<and> kurtosis L xf = Inr kx \<and> kurtosis L yf = Inr ky \<and> kurtosis L zf = Inr kz
         \<and> evs = CallDataFrame data # ex @ ey @ ez @
                 [CallKurtosis xf, CallKurtosis yf, CallKurtosis zf,
                  StWrite ''### Scientific Metrics (RMS and Kurtosis)'',
                  StJson
                    [(''X'', \<lparr>RMS = np_sqrt (np_mean (map np_square xf)), Kurtosis = kx\<rparr>),
                     (''Y'', \<lparr>RMS = np_sqrt (np_mean (map np_square yf)), Kurtosis = ky\<rparr>),
                     (''Z'', \<lparr>RMS = np_sqrt (np_mean (map np_square zf)), Kurtosis = kz\<rparr>)]]"
  using assms unfolding process_data_def
  by (auto simp: and_then_Inr_iff libcall_Inr_iff emit_Inr_iff ret_Inr_iff column_Inr_iff
      split: if_splits; blast)

lemma combined_filter_Inr_D:
  assumes "combined_filter L data lowcut highcut fs order = (evs, Inr out)"
  shows "\<exists>b_low a_low low_passed b_high a_high wn.
           butter L order wn Low = Inr (b_low, a_low)
         \<and> filtfilt L b_low a_low data = Inr low_passed
         \<and> filtfilt L b_high a_high low_passed = Inr out"
  using assms unfolding combined_filter_def
  by (auto simp: and_then_Inr_iff libcall_Inr_iff pydiv_Inr_iff) blast

lemma combined_filter_output_long:
  assumes same_shape: "\<forall>b a x y. filtfilt L b a x = Inr y \<longrightarrow> length y = length x"
      and butter_len:
        "\<forall>n wn bt b a. butter L n wn bt = Inr (b, a) \<longrightarrow> length b = n + 1 \<and> length a = n + 1"
      and filtfilt_padlen:
        "\<forall>b a x. length x \<le> 3 * max (length a) (length b) \<longrightarrow> isl (filtfilt L b a x)"
      and ok: "combined_filter L data lowcut highcut fs order = (evs, Inr out)"
  shows "3 * (order + 1) < length out"
proof -
  from combined_filter_Inr_D [OF ok] obtain b_low a_low low_passed b_high a_high wn where
        bl: "butter L order wn Low = Inr (b_low, a_low)"
    and fl: "filtfilt L b_low a_low data = Inr low_passed"
    and fh: "filtfilt L b_high a_high low_passed = Inr out"
    by blast
  from bl butter_len have "length b_low = order + 1 \<and> length a_low = order + 1" by blast
  moreover from fl filtfilt_padlen have "\<not> length data \<le> 3 * max (length a_low) (length b_low)"
    by (metis sum.disc(2))
  ultimately have "3 * (order + 1) < length data" by simp
  moreover from same_shape fl have "length low_passed = length data" by blast
  moreover from same_shape fh have "length out = length low_passed" by blast
  ultimately show ?thesis by simp
qed

text \<open>
  C9, as stated: for every non-empty signal the RMS returned is
  \<open>sqrt(mean(signal squared))\<close>, a number that is at least 0. Nineteen messages are
  buffered and the first carries NaN for X, Y and Z. \<open>filtfilt\<close> accepts the nineteen
  samples of each axis and returns NaN everywhere, and the RMS reported for each axis is
  NaN, not a number at least 0. No error is raised.
\<close>

theorem rms_of_nan_signal_counterexample:
  "StJson [(''X'', \<lparr>RMS = NaN, Kurtosis = NaN\<rparr>),
           (''Y'', \<lparr>RMS = NaN, Kurtosis = NaN\<rparr>),
           (''Z'', \<lparr>RMS = NaN, Kurtosis = NaN\<rparr>)]
     \<in> set (fst (process_data ref_lib
                   (sample (Val 0) NaN NaN NaN
                      # replicate 18 (sample (Val 0) (Val 1) (Val 1) (Val 1)))
                   0.5 20 ''haar'' 3 1000))"
  by (simp add: process_data_def combined_filter_def column_def and_then_def libcall_def
      pydiv_def ret_def raise_def emit_def default_order_def sample_def
      ref_lib_def ref_DataFrame_def ref_butter_def ref_filtfilt_def ref_kurtosis_def
      np_mean_def np_sqrt_def foldr_np_add_NaN
      Let_def list_all_iff del: foldr_replicate)

text \<open>
  C9, amended. The program has no EmptySignalError and no check of its own in the
  statistics; they are computed only on the three outputs of \<open>combined_filter\<close>, and given
  the library's contracts (\<open>filtfilt\<close> keeps the length of its input and raises for an
  input not longer than \<open>3 * max(len(a), len(b))\<close>, \<open>butter\<close> returns vectors of length
  \<open>order + 1\<close>) each of them has more than 18 samples, so never length zero. When
  \<open>process_data\<close> returns its result, the RMS it has reported for each axis is
  \<open>sqrt(mean(signal squared))\<close>, at least 0, if every sample of the filtered signal is a
  number, and NaN if some sample is NaN.
\<close>

theorem stats_on_filtered_signals:
  assumes same_shape: "\<forall>b a x y. filtfilt L b a x = Inr y \<longrightarrow> length y = length x"
      and butter_len:
        "\<forall>n wn bt b a. butter L n wn bt = Inr (b, a) \<longrightarrow> length b = n + 1 \<and> length a = n + 1"
      and filtfilt_padlen:
        "\<forall>b a x. length x \<le> 3 * max (length a) (length b) \<longrightarrow> isl (filtfilt L b a x)"
      and ok: "process_data L data lowcut highcut w n fs = (evs, Inr (Some (timestamp, xf, yf, zf)))"
  shows "(\<exists>kx ky kz.
            kurtosis L xf = Inr kx \<and> kurtosis L yf = Inr ky \<and> kurtosis L zf = Inr kz
          \<and> StJson
              [(''X'', \<lparr>RMS = np_sqrt (np_mean (map np_square xf)), Kurtosis = kx\<rparr>),
               (''Y'', \<lparr>RMS = np_sqrt (np_mean (map np_square yf)), Kurtosis = ky\<rparr>),
               (''Z'', \<lparr>RMS = np_sqrt (np_mean (map np_square zf)), Kurtosis = kz\<rparr>)] \<in> set evs)
       \<and> 18 < length xf \<and> 18 < length yf \<and> 18 < length zf
       \<and> (\<forall>s \<in> {xf, yf, zf}.
            (NaN \<in> set s \<longrightarrow> np_sqrt (np_mean (map np_square s)) = NaN)
          \<and> (\<forall>rs. s = map Val rs \<longrightarrow>
                 np_sqrt (np_mean (map np_square s))
                   = Val (sqrt (sum_list (map (\<lambda>v. v ^ 2) rs) / real (length rs)))
               \<and> 0 \<le> sqrt (sum_list (map (\<lambda>v. v ^ 2) rs) / real (length rs))))"
proof -
  from process_data_Some [OF ok] obtain x y z ex ey ez kx ky kz where
        cx: "combined_filter L x lowcut highcut fs default_order = (ex, Inr xf)"
    and cy: "combined_filter L y lowcut highcut fs default_order = (ey, Inr yf)"
    and cz: "combined_filter L z lowcut highcut fs default_order = (ez, Inr zf)"
    and k: "kurtosis L xf = Inr kx" "kurtosis L yf = Inr ky" "kurtosis L zf = Inr kz"
    and evs: "evs = CallDataFrame data # ex @ ey @ ez @
                 [CallKurtosis xf, CallKurtosis yf, CallKurtosis zf,
                  StWrite ''### Scientific Metrics (RMS and Kurtosis)'',
                  StJson
                    [(''X'', \<lparr>RMS = np_sqrt (np_mean (map np_square xf)), Kurtosis = kx\<rparr>),
                     (''Y'', \<lparr>RMS = np_sqrt (np_mean (map np_square yf)), Kurtosis = ky\<rparr>),
                     (''Z'', \<lparr>RMS = np_sqrt (np_mean (map np_square zf)), Kurtosis = kz\<rparr>)]]"
    by blast
  have json: "\<exists>kx ky kz.
            kurtosis L xf = Inr kx \<and> kurtosis L yf = Inr ky \<and> kurtosis L zf = Inr kz
          \<and> StJson
              [(''X'', \<lparr>RMS = np_sqrt (np_mean (map np_square xf)), Kurtosis = kx\<rparr>),
               (''Y'', \<lparr>RMS = np_sqrt (np_mean (map np_square yf)), Kurtosis = ky\<rparr>),
               (''Z'', \<lparr>RMS = np_sqrt (np_mean (map np_square zf)), Kurtosis = kz\<rparr>)] \<in> set evs"
    using k evs by auto
  have lx: "18 < length xf"
    using combined_filter_output_long [OF same_shape butter_len filtfilt_padlen cx]
    by (simp add: default_order_def)
  have ly: "18 < length yf"
    using combined_filter_output_long [OF same_shape butter_len filtfilt_padlen cy]
    by (simp add: default_order_def)
  have lz: "18 < length zf"
    using combined_filter_output_long [OF same_shape butter_len filtfilt_padlen cz]
    by (simp add: default_order_def)
  have rms: "(NaN \<in> set s \<longrightarrow> np_sqrt (np_mean (map np_square s)) = NaN)
          \<and> (\<forall>rs. s = map Val rs \<longrightarrow>
                 np_sqrt (np_mean (map np_square s))
                   = Val (sqrt (sum_list (map (\<lambda>v. v ^ 2) rs) / real (length rs)))
               \<and> 0 \<le> sqrt (sum_list (map (\<lambda>v. v ^ 2) rs) / real (length rs)))"
    if "18 < length s" for s
  proof (intro conjI impI allI)
    assume "NaN \<in> set s"
    then show "np_sqrt (np_mean (map np_square s)) = NaN" by (rule rms_nan)
  next
    fix rs assume s: "s = map Val rs"
    with that have "rs \<noteq> []" by auto
    then show "np_sqrt (np_mean (map np_square s))
                 = Val (sqrt (sum_list (map (\<lambda>v. v ^ 2) rs) / real (length rs)))"
      unfolding s by (rule rms_numbers)
  next
    fix rs
    show "0 \<le> sqrt (sum_list (map (\<lambda>v. v ^ 2) rs) / real (length rs))"
      using sum_list_squares_nonneg [of rs] by (simp add: divide_nonneg_nonneg)
  qed
  from json lx ly lz rms [OF lx] rms [OF ly] rms [OF lz] show ?thesis
    by simp
qed

theorem stats_on_filtered_signals_witness:
  "\<exists>evs timestamp xf yf zf.
     process_data ref_lib
       (sample (Val 0) (Val 3) (Val 4) (Val 5) # replicate 18 (sample (Val 0) (Val 3) (Val 4) (Val 5)))
       0.5 20 ''haar'' 3 1000
       = (evs, Inr (Some (timestamp, xf, yf, zf)))
     \<and> 18 < length xf
     \<and> np_sqrt (np_mean (map np_square xf)) = Val 3"
proof -
  have h1: "\<forall>b a x y. filtfilt ref_lib b a x = Inr y \<longrightarrow> length y = length x"
    by (auto simp add: ref_lib_def ref_filtfilt_def split: if_splits)
  have h2: "\<forall>n wn bt b a. butter ref_lib n wn bt = Inr (b, a) \<longrightarrow> length b = n + 1 \<and> length a = n + 1"
    by (auto simp add: ref_lib_def ref_butter_def split: if_splits)
  have h3: "\<forall>b a x. length x \<le> 3 * max (length a) (length b) \<longrightarrow> isl (filtfilt ref_lib b a x)"
    by (simp add: ref_lib_def ref_filtfilt_def)
  obtain evs timestamp yf zf where ok:
    "process_data ref_lib
       (sample (Val 0) (Val 3) (Val 4) (Val 5) # replicate 18 (sample (Val 0) (Val 3) (Val 4) (Val 5)))
       0.5 20 ''haar'' 3 1000
       = (evs, Inr (Some (timestamp, Val 3 # replicate 18 (Val 3), yf, zf)))"
    by (simp add: process_data_def combined_filter_def column_def and_then_def libcall_def
      pydiv_def ret_def raise_def emit_def default_order_def sample_def
      ref_lib_def ref_DataFrame_def ref_butter_def ref_filtfilt_def ref_kurtosis_def
      Let_def list_all_iff sum_list_replicate del: foldr_replicate)
  note th = stats_on_filtered_signals [OF h1 h2 h3 ok]
  note len = th [THEN conjunct2, THEN conjunct1]
  note ball = th [THEN conjunct2, THEN conjunct2, THEN conjunct2, THEN conjunct2]
  have mem: "Val 3 # replicate 18 (Val 3) \<in> {Val 3 # replicate 18 (Val 3), yf, zf}"
    by simp
  have m: "Val 3 # replicate 18 (Val 3) = map Val (3 # replicate 18 3)"
    by simp
  note num = bspec [OF ball mem, THEN conjunct2, THEN spec, THEN mp, OF m, THEN conjunct1]
  have "sqrt ((3::real) ^ 2) = 3"
    by (simp only: real_sqrt_abs)
  then have r: "sqrt (sum_list (map (\<lambda>v. v ^ 2) (3 # replicate 18 (3::real)))
                  / real (length (3 # replicate 18 (3::real)))) = 3"
    by (simp add: sum_list_replicate)
  from num have rms: "np_sqrt (np_mean (map np_square (Val 3 # replicate 18 (Val 3)))) = Val 3"
    unfolding r .
  from ok len rms show ?thesis
    by (intro exI conjI)
qed

section \<open>Properties of the wavelet decomposition\<close>

lemma wavedec_steps_length:
  "wavedec_steps dwt w n a = Inr (a', ds) \<Longrightarrow> length ds = n"
  by (induction n arbitrary: a a' ds) (auto split: sum.splits prod.splits)

lemma plot_dwt_analysis_Inr:
  "wavedec L x w n = Inr coeffs \<Longrightarrow>
     \<exists>fig. plot_dwt_analysis L ts x title w n g = ([CallWavedec x w n, StPlotlyChart fig], Inr ())
          \<and> length (fig_traces fig) = length coeffs - 1"
  by (auto simp add: plot_dwt_analysis_def and_then_def libcall_def emit_def Let_def)

lemma plot_dwt_analysis_Inl:
  "snd (plot_dwt_analysis L ts x title w n g) = Inl e \<longleftrightarrow> wavedec L x w n = Inl e"
  by (cases "wavedec L x w n")
     (simp_all add: plot_dwt_analysis_def and_then_def libcall_def emit_def Let_def)


text \<open>
  C7. When the multilevel decomposition with \<open>n\<close> levels succeeds it returns the final
  approximation band followed by exactly \<open>n\<close> detail bands, \<open>n + 1\<close> arrays in all; and
  \<open>plot_dwt_analysis\<close>, run with this decomposition, computes \<open>levels = n\<close> and draws
  one trace per detail band.
\<close>

theorem wavedec_band_count:
  assumes "wavedec_model dwt x w n = Inr coeffs"
  shows "(\<exists>a ds. coeffs = a # ds \<and> length ds = n \<and> wavedec_steps dwt w n x = Inr (a, ds))
       \<and> length coeffs = n + 1
       \<and> (wavedec L = wavedec_model dwt \<longrightarrow>
            (\<exists>fig. plot_dwt_analysis L ts x title w n g
                      = ([CallWavedec x w n, StPlotlyChart fig], Inr ())
                  \<and> length (fig_traces fig) = n))"
proof -
  from assms obtain a ds where steps: "wavedec_steps dwt w n x = Inr (a, ds)" and c: "coeffs = a # ds"
    by (auto simp: wavedec_model_def split: sum.splits prod.splits)
  from steps have len: "length ds = n" by (rule wavedec_steps_length)
  have "\<exists>fig. plot_dwt_analysis L ts x title w n g = ([CallWavedec x w n, StPlotlyChart fig], Inr ())
           \<and> length (fig_traces fig) = n"
    if "wavedec L = wavedec_model dwt"
    using plot_dwt_analysis_Inr [of L x w n coeffs ts title g] that assms c len by simp
  with steps c len show ?thesis by simp
qed

theorem wavedec_band_count_witness:
  "\<exists>coeffs fig. wavedec_model haar_dwt [Val 1, Val 2, Val 3, Val 4] ''haar'' 2 = Inr coeffs \<and> length coeffs = 3
     \<and> plot_dwt_analysis ref_lib [Val 0, Val 1, Val 2, Val 3] [Val 1, Val 2, Val 3, Val 4] ''X-Axis Vibration'' ''haar'' 2 ''3D''
          = ([CallWavedec [Val 1, Val 2, Val 3, Val 4] ''haar'' 2, StPlotlyChart fig], Inr ())
     \<and> length (fig_traces fig) = 2"
proof -
  obtain coeffs where h: "wavedec_model haar_dwt [Val 1, Val 2, Val 3, Val 4] ''haar'' 2 = Inr coeffs"
    by (simp add: wavedec_model_def haar_dwt_def numeral_2_eq_2)
  have l: "wavedec ref_lib = wavedec_model haar_dwt"
    by (simp add: ref_lib_def)
  from wavedec_band_count [OF h, of ref_lib "[Val 0, Val 1, Val 2, Val 3]" "''X-Axis Vibration''" "''3D''"] l
  have "length coeffs = 2 + 1
      \<and> (\<exists>fig. plot_dwt_analysis ref_lib [Val 0, Val 1, Val 2, Val 3] [Val 1, Val 2, Val 3, Val 4] ''X-Axis Vibration'' ''haar'' 2 ''3D''
                  = ([CallWavedec [Val 1, Val 2, Val 3, Val 4] ''haar'' 2, StPlotlyChart fig], Inr ())
              \<and> length (fig_traces fig) = 2)"
    by blast
  with h show ?thesis by auto
qed

text \<open>
  C8, as stated: the decomposition fails whenever the level exceeds the depth the signal
  length allows. \<open>plot_dwt_analysis\<close> passes the level to the library unchecked, and with
  the library instance (PyWavelets 1.x only warns) a signal of 4 samples, shorter than
  \<open>2 ^ 5\<close>, is decomposed at level 5 without any failure.
\<close>

theorem level_above_depth_counterexample:
  "length [Val 1, Val 2, Val 3, Val 4] < 2 ^ 5
   \<and> snd (plot_dwt_analysis ref_lib [Val 0, Val 1, Val 2, Val 3] [Val 1, Val 2, Val 3, Val 4] ''X-Axis Vibration'' ''haar'' 5 ''3D'')
       = Inr ()"
  by (simp add: plot_dwt_analysis_def and_then_def libcall_def emit_def Let_def ref_lib_def
      wavedec_model_def haar_dwt_def eval_nat_numeral)

text \<open>
  C8, amended: \<open>plot_dwt_analysis\<close> makes no check of the level against the signal
  length: it fails exactly when the library call \<open>pywt.wavedec\<close> raises, and then with
  the library's exception.
\<close>

theorem decompose_fails_as_wavedec:
  "snd (plot_dwt_analysis L ts x title w n g) = Inl e \<longleftrightarrow> wavedec L x w n = Inl e"
  by (rule plot_dwt_analysis_Inl)

theorem decompose_fails_as_wavedec_witness:
  "snd (plot_dwt_analysis ref_lib [] [Val 1, Val 2] ''X-Axis Vibration'' ''db4'' 1 ''2D'')
     = Inl (ValueError ''Unknown wavelet name'')"
proof -
  have "wavedec ref_lib [Val 1, Val 2] ''db4'' 1 = Inl (ValueError ''Unknown wavelet name'')"
    by (simp add: ref_lib_def wavedec_model_def haar_dwt_def)
  with decompose_fails_as_wavedec [of ref_lib "[]" "[Val 1, Val 2]" "''X-Axis Vibration''" "''db4''" 1 "''2D''"]
  show ?thesis by simp
qed

section \<open>Properties of the analysis loop\<close>

lemma fst_and_then:
  "fst (and_then m f) = fst m @ (case snd m of Inl e \<Rightarrow> [] | Inr x \<Rightarrow> fst (f x))"
  by (cases m; cases "snd m") (auto simp: and_then_def split: prod.splits)

lemma list_all_and_then:
  "list_all P (fst (and_then m f)) \<longleftrightarrow>
     list_all P (fst m) \<and> (\<forall>x. snd m = Inr x \<longrightarrow> list_all P (fst (f x)))"
  by (cases "snd m") (auto simp: fst_and_then)

lemma combined_filter_butter_args:
  "list_all (butter_args_ok lowcut highcut fs order) (fst (combined_filter L data lowcut highcut fs order))"
  by (auto simp: combined_filter_def list_all_and_then libcall_def pydiv_def ret_def raise_def
     )

lemma column_events: "fst (column df k) = []"
  by (simp add: column_def raise_def ret_def split: option.splits)

lemma process_data_butter_args:
  "list_all (butter_args_ok lowcut highcut fs default_order)
     (fst (process_data L data lowcut highcut w n fs))"
  unfolding process_data_def
  by (simp add: list_all_and_then combined_filter_butter_args
      column_events libcall_def emit_def ret_def)

lemma plot_dwt_analysis_butter_args:
  "list_all (butter_args_ok lo hi fs n) (fst (plot_dwt_analysis L ts x title w k g))"
  by (simp add: plot_dwt_analysis_def list_all_and_then libcall_def emit_def Let_def)

lemma cycle_butter_args:
  "list_all (butter_args_ok (cfg_lowcut cfg) (cfg_highcut cfg) default_fs default_order)
     (fst (cycle L cfg buf))"
  unfolding cycle_def
  by (auto simp add: list_all_and_then process_data_butter_args plot_dwt_analysis_butter_args
      emit_def split: option.splits)

lemma analysis_loop_butter_args:
  "list_all (butter_args_ok (cfg_lowcut cfg) (cfg_highcut cfg) default_fs default_order)
     (fst (analysis_loop L cfg buf incoming))"
proof (induction incoming arbitrary: buf)
  case Nil
  then show ?case by simp
next
  case (Cons item rest)
  show ?case
  proof (cases item)
    case (Inl e)
    then show ?thesis by (cases e) (simp_all add:)
  next
    case (Inr d)
    have c: "list_all (butter_args_ok (cfg_lowcut cfg) (cfg_highcut cfg) default_fs default_order)
               (fst (cycle L cfg (push buf d)))"
      by (rule cycle_butter_args)
    show ?thesis
    proof (cases "cycle L cfg (push buf d)")
      case (Pair evs r)
      with c have evs: "list_all (butter_args_ok (cfg_lowcut cfg) (cfg_highcut cfg) default_fs default_order) evs"
        by simp
      show ?thesis
      proof (cases r)
        case (Inl e)
        with Pair Inr evs show ?thesis by (simp add:)
      next
        case r: (Inr u)
        from Cons.IH [of "push buf d"] Pair Inr r evs show ?thesis
          by (simp add: case_prod_unfold Let_def)
      qed
    qed
  qed
qed

lemma analysis_loop_append:
  "analysis_loop L cfg buf pre = (evs0, AwaitingRecv buf1) \<Longrightarrow>
     analysis_loop L cfg buf (pre @ rest) =
       (evs0 @ fst (analysis_loop L cfg buf1 rest), snd (analysis_loop L cfg buf1 rest))"
proof (induction pre arbitrary: buf evs0)
  case Nil
  then show ?case by simp
next
  case (Cons item pre)
  show ?case
  proof (cases item)
    case (Inl e)
    with Cons.prems show ?thesis by (cases e) simp_all
  next
    case (Inr d)
    show ?thesis
    proof (cases "cycle L cfg (push buf d)")
      case (Pair evs r)
      show ?thesis
      proof (cases r)
        case (Inl e)
        with Pair Inr Cons.prems show ?thesis by simp
      next
        case r: (Inr u)
        obtain evs' fin where rec: "analysis_loop L cfg (push buf d) pre = (evs', fin)"
          by (cases "analysis_loop L cfg (push buf d) pre")
        with Pair Inr r Cons.prems have "fin = AwaitingRecv buf1" "evs0 = evs @ evs'"
          by simp_all
        with rec Cons.IH [of "push buf d" evs'] Pair Inr r show ?thesis
          by simp
      qed
    qed
  qed
qed


text \<open>
  C3, as stated: an error raised in one cycle aborts only that cycle and the loop goes on
  to the next. The \<open>try\<close> encloses the whole \<open>for\<close> loop: with two messages
  delivered, the first cycle raises in \<open>filtfilt\<close> (one sample is not longer than the
  padding), the error is reported, and the loop has ended; the second message is never
  processed.
\<close>

theorem cycle_error_not_isolated_counterexample:
  "analysis_loop ref_lib test_config [] [Inr (sample (Val 0) (Val 1) (Val 2) (Val 3)), Inr (sample (Val 1) (Val 1) (Val 2) (Val 3))] =
     ([CallDataFrame [sample (Val 0) (Val 1) (Val 2) (Val 3)],
       CallButter 5 (1 / 1000) Low,
       CallFiltfilt (replicate 6 1) (replicate 6 1) [Val 1],
       StError (TextExn ''Error in real-time analysis: ''
         (ValueError ''The length of the input vector x must be greater than padlen''))],
      LoopEnded)"
  by (simp add: cycle_def process_data_def combined_filter_def column_def and_then_def libcall_def
      pydiv_def ret_def raise_def emit_def push_def buffer_step_def buffer_limit_def
      default_fs_def default_order_def test_config_def sample_def
      ref_lib_def ref_DataFrame_def ref_butter_def ref_filtfilt_def)

text \<open>
  C3, amended: when the cycles of the messages before it all complete and the cycle of a
  message raises a component-level error, the log of the loop is the log of the earlier
  cycles, then what the failing cycle did up to the error, then the report of the error to
  the consumer; and the loop has ended, whatever messages follow.
\<close>

theorem cycle_error_ends_loop:
  assumes "analysis_loop L cfg buf pre = (evs0, AwaitingRecv buf1)"
      and "cycle L cfg (push buf1 d) = (evs, Inl e)"
  shows "analysis_loop L cfg buf (pre @ Inr d # rest) =
           (evs0 @ evs @ [StError (TextExn ''Error in real-time analysis: '' e)], LoopEnded)"
  using analysis_loop_append [OF assms(1), of "Inr d # rest"] assms(2) by simp

theorem cycle_error_ends_loop_witness:
  "analysis_loop ref_lib (test_config\<lparr>cfg_lowcut := 600\<rparr>) []
     ([] @ Inr (sample (Val 0) (Val 1) (Val 2) (Val 3)) # [Inr (sample (Val 1) (Val 1) (Val 2) (Val 3))]) =
     ([] @ [CallDataFrame [sample (Val 0) (Val 1) (Val 2) (Val 3)], CallButter 5 (600 / 500) Low]
         @ [StError (TextExn ''Error in real-time analysis: ''
              (ValueError ''Digital filter critical frequencies must be 0 < Wn < 1''))],
      LoopEnded)"
proof -
  have h1: "analysis_loop ref_lib (test_config\<lparr>cfg_lowcut := 600\<rparr>) [] [] = ([], AwaitingRecv [])"
    by simp
  have h2: "cycle ref_lib (test_config\<lparr>cfg_lowcut := 600\<rparr>) (push [] (sample (Val 0) (Val 1) (Val 2) (Val 3))) =
      ([CallDataFrame [sample (Val 0) (Val 1) (Val 2) (Val 3)], CallButter 5 (600 / 500) Low],
       Inl (ValueError ''Digital filter critical frequencies must be 0 < Wn < 1''))"
    by (simp add: cycle_def process_data_def combined_filter_def column_def and_then_def libcall_def
      pydiv_def ret_def raise_def emit_def push_def buffer_step_def buffer_limit_def
      default_fs_def default_order_def test_config_def sample_def
      ref_lib_def ref_DataFrame_def ref_butter_def ref_filtfilt_def)
  show ?thesis
    by (rule cycle_error_ends_loop [OF h1 h2])
qed

text \<open>
  C10. In every run of the analysis loop, for every library, configuration, initial buffer
  and sequence of messages, every call of \<open>butter\<close> has order 5 and a critical frequency
  that is a cutoff of the configuration divided by \<open>0.5 * 1000\<close>: the order and the
  sample rate are the defaults of \<open>combined_filter\<close> and \<open>process_data\<close>, which no
  call overrides and no configuration field reaches.
\<close>

theorem butter_called_with_fixed_order_and_rate:
  assumes "CallButter order wn bt \<in> set (fst (analysis_loop (L :: 'j lib) cfg buf incoming))"
  shows "order = 5 \<and> (bt = Low \<and> wn = cfg_lowcut cfg / (0.5 * 1000)
                    \<or> bt = High \<and> wn = cfg_highcut cfg / (0.5 * 1000))"
proof -
  have "list_all (butter_args_ok (cfg_lowcut cfg) (cfg_highcut cfg) default_fs default_order)
          (fst (analysis_loop L cfg buf incoming))"
    by (rule analysis_loop_butter_args)
  with assms have "butter_args_ok (cfg_lowcut cfg) (cfg_highcut cfg) default_fs default_order
                     (CallButter order wn bt :: 'j event)"
    unfolding list_all_iff by blast
  then show ?thesis by (simp add: default_fs_def default_order_def)
qed

theorem butter_called_with_fixed_order_and_rate_witness:
  "CallButter 5 (1 / 1000) Low
     \<in> set (fst (analysis_loop ref_lib test_config [] [Inr (sample (Val 0) (Val 1) (Val 2) (Val 3))]))
   \<and> (1 / 1000 :: real) = cfg_lowcut test_config / (0.5 * 1000)"
proof -
  have h: "CallButter 5 (1 / 1000) Low
     \<in> set (fst (analysis_loop ref_lib test_config [] [Inr (sample (Val 0) (Val 1) (Val 2) (Val 3))]))"
    by (simp add: cycle_def process_data_def combined_filter_def column_def and_then_def libcall_def
      pydiv_def ret_def raise_def emit_def push_def buffer_step_def buffer_limit_def
      default_fs_def default_order_def test_config_def sample_def
      ref_lib_def ref_DataFrame_def ref_butter_def ref_filtfilt_def)
  from butter_called_with_fixed_order_and_rate [OF h] h show ?thesis by simp
qed

end
